theory Spec2Isabelle
  imports
    Complex_Main
    "HOL-Library.Sublist"
    "HOL-Library.List_Lexorder"
    "HOL-Library.Char_ord"
    "HOL-Library.AList"
begin

section \<open>Python strings and exceptions\<close>

text \<open>
  A Python \<open>str\<close> is modelled as the list of the bytes of its UTF-8 encoding.  The
  literals of the sources that are not ASCII (the rupee sign) are written as their three
  bytes.  \<open>str.strip\<close> and \<open>str.lower\<close> are modelled on the ASCII range: the white
  space characters are the code points 9-13, 28-31 and 32, the letters with a lower-case
  form are \<open>A\<close>-\<open>Z\<close>; bytes from 128 on are left as they are.  The order on
  strings is the lexicographic order on bytes, which is Python's order on code points.
\<close>

definition is_space :: "char \<Rightarrow> bool" where
  "is_space c = (let n = (of_char c :: nat) in (9 \<le> n \<and> n \<le> 13) \<or> (28 \<le> n \<and> n \<le> 32))"

definition is_digit :: "char \<Rightarrow> bool" where
  "is_digit c = (let n = (of_char c :: nat) in 48 \<le> n \<and> n \<le> 57)"

definition py_strip :: "string \<Rightarrow> string" where
  "py_strip s = rev (dropWhile is_space (rev (dropWhile is_space s)))"

definition lower_char :: "char \<Rightarrow> char" where
  "lower_char c = (let n = (of_char c :: nat) in if 65 \<le> n \<and> n \<le> 90 then char_of (n + 32) else c)"

definition py_lower :: "string \<Rightarrow> string" where
  "py_lower s = map lower_char s"

text \<open>\<open>s.startswith(p)\<close>, \<open>s.endswith(p)\<close> and \<open>sub in s\<close>.\<close>

definition py_startswith :: "string \<Rightarrow> string \<Rightarrow> bool" where
  "py_startswith s p = prefix p s"

definition py_endswith :: "string \<Rightarrow> string \<Rightarrow> bool" where
  "py_endswith s p = prefix (rev p) (rev s)"

fun py_contains :: "string \<Rightarrow> string \<Rightarrow> bool" where
  "py_contains sub [] = (sub = [])"
| "py_contains sub (c # cs) = (prefix sub (c # cs) \<or> py_contains sub cs)"

text \<open>\<open>s.split(d)\<close> for a one-character separator, and \<open>sep.join(xs)\<close>.\<close>

fun py_split :: "char \<Rightarrow> string \<Rightarrow> string list" where
  "py_split d [] = [[]]"
| "py_split d (c # cs) =
     (if c = d then [] # py_split d cs
      else (case py_split d cs of [] \<Rightarrow> [[c]] | r # rs \<Rightarrow> (c # r) # rs))"

fun py_join :: "string \<Rightarrow> string list \<Rightarrow> string" where
  "py_join sep [] = []"
| "py_join sep [x] = x"
| "py_join sep (x # y # ys) = x @ sep @ py_join sep (y # ys)"

text \<open>The text before the first occurrence of a marker, the whole text when there is none.\<close>

fun before_first :: "string \<Rightarrow> string \<Rightarrow> string" where
  "before_first m [] = []"
| "before_first m (c # cs) = (if prefix m (c # cs) then [] else c # before_first m cs)"

text \<open>\<open>str(n)\<close> for a natural number.\<close>

fun digits_of :: "nat \<Rightarrow> nat \<Rightarrow> string" where
  "digits_of 0 n = []"
| "digits_of (Suc k) n =
     (if n < 10 then [char_of (48 + n)] else digits_of k (n div 10) @ [char_of (48 + n mod 10)])"

definition str_nat :: "nat \<Rightarrow> string" where
  "str_nat n = digits_of (Suc n) n"

text \<open>
  Exceptions are values: the class of the exception and \<open>str(e)\<close>.  Every class below
  derives from \<open>Exception\<close>, so \<open>except Exception\<close> catches each of them, while
  \<open>except C\<close> for another class catches only the errors of class \<open>C\<close>.
\<close>

datatype exc_class =
    Exception | ValueError | FileNotFoundError | OSError | AttributeError | TypeError
  | IndexError | KeyError | JSONDecodeError | Timeout | ConnectionError | RequestException

datatype pyerr = PyErr exc_class string

fun exc_class_of :: "pyerr \<Rightarrow> exc_class" where
  "exc_class_of (PyErr c m) = c"

fun str_of :: "pyerr \<Rightarrow> string" where
  "str_of (PyErr c m) = m"

definition bind :: "pyerr + 'a \<Rightarrow> ('a \<Rightarrow> pyerr + 'b) \<Rightarrow> pyerr + 'b" where
  "bind r f = (case r of Inl e \<Rightarrow> Inl e | Inr v \<Rightarrow> f v)"

definition except_Exception :: "pyerr + 'a \<Rightarrow> (pyerr \<Rightarrow> pyerr + 'a) \<Rightarrow> pyerr + 'a" where
  "except_Exception body handler = (case body of Inl e \<Rightarrow> handler e | Inr v \<Rightarrow> Inr v)"

section \<open>The regular expressions of the sources\<close>

text \<open>
  A pattern is modelled by its matcher: applied to the text at a position, it gives the
  groups and the length of the match there, or \<open>None\<close>.  No pattern of the sources
  matches the empty string, so every match has a positive length.  \<open>re.findall\<close>
  collects the matches from left to right without overlap, \<open>re.search\<close> gives the
  leftmost one, \<open>re.match\<close> the one at the start.
\<close>

type_synonym 'g matcher = "string \<Rightarrow> ('g \<times> nat) option"

fun re_findall :: "'g matcher \<Rightarrow> string \<Rightarrow> 'g list" where
  "re_findall m [] = []"
| "re_findall m (c # cs) =
     (case m (c # cs) of
        None \<Rightarrow> re_findall m cs
      | Some (g, n) \<Rightarrow> g # re_findall m (drop (n - 1) cs))"

fun re_search :: "'g matcher \<Rightarrow> string \<Rightarrow> 'g option" where
  "re_search m [] = None"
| "re_search m (c # cs) =
     (case m (c # cs) of None \<Rightarrow> re_search m cs | Some (g, n) \<Rightarrow> Some g)"

definition re_match :: "'g matcher \<Rightarrow> string \<Rightarrow> 'g option" where
  "re_match m s = map_option fst (m s)"

text \<open>\<^verbatim>\<open>### ([^#\n]+)\<close>\<close>

definition area_pattern :: "string matcher" where
  "area_pattern s =
     (if prefix ''### '' s then
        (let g = takeWhile (\<lambda>c. c \<noteq> CHR ''#'' \<and> c \<noteq> CHR ''\<newline>'') (drop 4 s)
         in if g = [] then None else Some (g, 4 + length g))
      else None)"

text \<open>\<^verbatim>\<open>\*\*([^*]+)\*\*:\<close>\<close>

definition bold_label_pattern :: "string matcher" where
  "bold_label_pattern s =
     (if prefix ''**'' s then
        (let g = takeWhile (\<lambda>c. c \<noteq> CHR ''*'') (drop 2 s)
         in if g \<noteq> [] \<and> prefix ''**:'' (drop (2 + length g) s)
            then Some (g, length g + 5) else None)
      else None)"

text \<open>\<^verbatim>\<open>- \*\*([^*]+)\*\*:([^-\n]+)\<close>\<close>

definition food_pattern :: "(string \<times> string) matcher" where
  "food_pattern s =
     (if prefix ''- **'' s then
        (let g1 = takeWhile (\<lambda>c. c \<noteq> CHR ''*'') (drop 4 s);
             r = drop (4 + length g1) s
         in if g1 \<noteq> [] \<and> prefix ''**:'' r then
              (let g2 = takeWhile (\<lambda>c. c \<noteq> CHR ''-'' \<and> c \<noteq> CHR ''\<newline>'') (drop 3 r)
               in if g2 = [] then None else Some ((g1, g2), 7 + length g1 + length g2))
            else None)
      else None)"

text \<open>The rupee sign followed by \<^verbatim>\<open>[\d-]+\<close>; the group is the whole match.\<close>

definition rupee :: string where
  "rupee = [CHR 0xE2, CHR 0x82, CHR 0xB9]"

definition price_pattern :: "string matcher" where
  "price_pattern s =
     (if prefix rupee s then
        (let g = takeWhile (\<lambda>c. is_digit c \<or> c = CHR ''-'') (drop 3 s)
         in if g = [] then None else Some (rupee @ g, 3 + length g))
      else None)"

text \<open>A fixed label followed by \<^verbatim>\<open>([^\n]+)\<close>: the labelled lines, the tips, the bullets.\<close>

definition labelled_pattern :: "string \<Rightarrow> string matcher" where
  "labelled_pattern label s =
     (if prefix label s then
        (let g = takeWhile (\<lambda>c. c \<noteq> CHR ''\<newline>'') (drop (length label) s)
         in if g = [] then None else Some (g, length label + length g))
      else None)"

text \<open>
  \<^verbatim>\<open>### {time_period}[^#]*?\n(.*?)(?=###|\Z)\<close> with \<open>re.DOTALL\<close>: the lazy class stops
  at the first line feed, which no \<open>#\<close> may precede; the group runs to the next
  \<open>###\<close> or to the end of the text.
\<close>

definition time_section_pattern :: "string \<Rightarrow> string matcher" where
  "time_section_pattern period s =
     (let h = ''### '' @ period in
      if prefix h s then
        (let rest = drop (length h) s;
             pre = takeWhile (\<lambda>c. c \<noteq> CHR ''#'' \<and> c \<noteq> CHR ''\<newline>'') rest
         in case drop (length pre) rest of
              [] \<Rightarrow> None
            | c # body \<Rightarrow>
                if c = CHR ''\<newline>'' then
                  (let g = before_first ''###'' body
                   in Some (g, length h + length pre + 1 + length g))
                else None)
      else None)"

text \<open>\<^verbatim>\<open>### ([^#\n]*(?:Budget|Range|Premium)[^#\n]*)\n(.*?)(?=###|\Z)\<close> with \<open>re.DOTALL\<close>.\<close>

definition budget_pattern :: "(string \<times> string) matcher" where
  "budget_pattern s =
     (if prefix ''### '' s then
        (let h = takeWhile (\<lambda>c. c \<noteq> CHR ''#'' \<and> c \<noteq> CHR ''\<newline>'') (drop 4 s)
         in case drop (4 + length h) s of
              [] \<Rightarrow> None
            | c # body \<Rightarrow>
                if c = CHR ''\<newline>'' \<and>
                   (py_contains ''Budget'' h \<or> py_contains ''Range'' h \<or> py_contains ''Premium'' h)
                then (let d = before_first ''###'' body
                      in Some ((h, d), 5 + length h + length d))
                else None)
      else None)"

text \<open>\<^verbatim>\<open>## Response Guidelines\n(.*?)(?=##|\Z)\<close> with \<open>re.DOTALL\<close>.\<close>

definition guidelines_pattern :: "string matcher" where
  "guidelines_pattern s =
     (let h = ''## Response Guidelines\<newline>'' in
      if prefix h s then
        (let g = before_first ''##'' (drop (length h) s) in Some (g, length h + length g))
      else None)"

section \<open>context\_loader.py\<close>

record food_item =
  item_name :: string
  item_details :: string
  item_price :: string

record time_rec =
  best_areas :: string
  recommended_foods :: string
  section_content :: string

record budget_info =
  budget_price_range :: string
  budget_details :: string

text \<open>
  The dictionary that \<open>_parse_context_file\<close> builds.  It always has these seven keys,
  so a test \<open>k in context\<close> on it is true and \<open>context.get(k, d)\<close> is the field.  The
  dictionaries inside it are association lists in insertion order.
\<close>

record product_context =
  raw_content :: string
  areas :: "string list"
  food_options :: "(string \<times> food_item list) list"
  time_recommendations :: "(string \<times> time_rec) list"
  budget_categories :: "(string \<times> budget_info) list"
  response_guidelines :: "string list"
  local_tips :: "string list"

text \<open>The body of both loops of \<open>_extract_areas\<close>.\<close>

definition add_area :: "string list \<Rightarrow> string \<Rightarrow> string list" where
  "add_area acc m =
     (let area = py_strip m in if area \<noteq> [] \<and> area \<notin> set acc then acc @ [area] else acc)"

definition extract_areas :: "string \<Rightarrow> string list" where
  "extract_areas content =
     (let acc = foldl add_area [] (re_findall area_pattern content);
          acc = foldl add_area acc (re_findall bold_label_pattern content)
      in sort (remdups acc))"

text \<open>
  The loop of \<open>_extract_food_options\<close> over the lines, on the pair of \<open>current_area\<close>
  and \<open>food_options\<close>.  (The list \<open>matches\<close> that the function computes before the
  loop is not used.)
\<close>

definition food_options_step ::
  "string option \<times> (string \<times> food_item list) list \<Rightarrow> string \<Rightarrow>
   string option \<times> (string \<times> food_item list) list" where
  "food_options_step st line =
     (let (current_area, fo) =
            (case re_match area_pattern line of
               None \<Rightarrow> st
             | Some g \<Rightarrow>
                 (let a = py_strip g
                  in (Some a, if a \<in> fst ` set (snd st) then snd st else snd st @ [(a, [])])))
      in case re_match food_pattern line of
           None \<Rightarrow> (current_area, fo)
         | Some (g1, g2) \<Rightarrow>
             (case current_area of
                None \<Rightarrow> (current_area, fo)
              | Some a \<Rightarrow>
                  if a = [] then (current_area, fo)
                  else
                    (let food_name = py_strip g1;
                         details = py_strip g2;
                         price = (case re_search price_pattern details of
                                    Some p \<Rightarrow> p | None \<Rightarrow> ''Price varies'');
                         item = \<lparr>item_name = food_name, item_details = details, item_price = price\<rparr>
                     in (current_area, AList.map_entry a (\<lambda>items. items @ [item]) fo))))"

definition extract_food_options :: "string \<Rightarrow> (string \<times> food_item list) list" where
  "extract_food_options content =
     snd (foldl food_options_step (None, []) (py_split (CHR ''\<newline>'') content))"

definition labelled_value :: "string \<Rightarrow> string \<Rightarrow> string" where
  "labelled_value label text =
     (case re_search (labelled_pattern label) text of Some g \<Rightarrow> py_strip g | None \<Rightarrow> [])"

definition time_entry :: "string \<Rightarrow> string \<Rightarrow> (string \<times> time_rec) option" where
  "time_entry content time_period =
     (case re_search (time_section_pattern time_period) content of
        None \<Rightarrow> None
      | Some sec \<Rightarrow>
          Some (py_lower time_period,
                \<lparr>best_areas = labelled_value ''**Best Areas**:'' sec,
                 recommended_foods = labelled_value ''**Recommended**:'' sec,
                 section_content = py_strip sec\<rparr>))"

definition extract_time_recommendations :: "string \<Rightarrow> (string \<times> time_rec) list" where
  "extract_time_recommendations content =
     List.map_filter (time_entry content) [''Morning'', ''Afternoon'', ''Evening'', ''Late Night'']"

definition budget_step ::
  "(string \<times> budget_info) list \<Rightarrow> string \<times> string \<Rightarrow> (string \<times> budget_info) list" where
  "budget_step cats m =
     (let (category, details) = m;
          price_range = (case re_search price_pattern details of Some p \<Rightarrow> p | None \<Rightarrow> [])
      in AList.update (py_lower (py_strip category))
           \<lparr>budget_price_range = price_range, budget_details = py_strip details\<rparr> cats)"

definition extract_budget_categories :: "string \<Rightarrow> (string \<times> budget_info) list" where
  "extract_budget_categories content = foldl budget_step [] (re_findall budget_pattern content)"

definition extract_response_guidelines :: "string \<Rightarrow> string list" where
  "extract_response_guidelines content =
     (case re_search guidelines_pattern content of
        None \<Rightarrow> []
      | Some guidelines_content \<Rightarrow> re_findall (labelled_pattern ''- '') guidelines_content)"

definition extract_local_tips :: "string \<Rightarrow> string list" where
  "extract_local_tips content =
     concat (map (\<lambda>label. map py_strip (re_findall (labelled_pattern label) content))
               [''*Tip*:'', ''*Warning*:'', ''*Note*:'', ''*Best Practice*:''])"

definition validate_context :: "product_context \<Rightarrow> pyerr + unit" where
  "validate_context ctx =
     (if areas ctx = [] then
        Inl (PyErr ValueError ''Missing required context field: areas'')
      else if food_options ctx = [] then
        Inl (PyErr ValueError ''Missing required context field: food_options'')
      else if response_guidelines ctx = [] then
        Inl (PyErr ValueError ''Missing required context field: response_guidelines'')
      else if length (areas ctx) = 0 then
        Inl (PyErr ValueError ''No Delhi areas found in context'')
      else if length (response_guidelines ctx) = 0 then
        Inl (PyErr ValueError ''No response guidelines found in context'')
      else Inr ())"

text \<open>
  The file system as the loader sees it: \<open>os.path.exists\<close>, \<open>os.path.getmtime\<close> and
  the text that \<open>open(...).read()\<close> gives, the last two with the error they may raise.
\<close>

record file_system =
  path_exists :: "string \<Rightarrow> bool"
  getmtime :: "string \<Rightarrow> pyerr + nat"
  read_text :: "string \<Rightarrow> pyerr + string"

record context_loader =
  context_file_path :: string
  cached_context :: "product_context option"
  file_modified_time :: "nat option"

definition ContextLoader :: "string \<Rightarrow> context_loader" where
  "ContextLoader p =
     \<lparr>context_file_path = p, cached_context = None, file_modified_time = None\<rparr>"

definition default_context_file_path :: string where
  "default_context_file_path = ''.kiro/specs/delhi-street-food-app/product.md''"

definition build_context :: "string \<Rightarrow> product_context" where
  "build_context content =
     \<lparr>raw_content = content,
      areas = extract_areas content,
      food_options = extract_food_options content,
      time_recommendations = extract_time_recommendations content,
      budget_categories = extract_budget_categories content,
      response_guidelines = extract_response_guidelines content,
      local_tips = extract_local_tips content\<rparr>"

definition parse_context_file :: "file_system \<Rightarrow> context_loader \<Rightarrow> pyerr + product_context" where
  "parse_context_file fs self =
     except_Exception
       (bind (read_text fs (context_file_path self)) (\<lambda>content.
          if py_strip content = [] then Inl (PyErr ValueError ''Product context file is empty'')
          else (let ctx = build_context content
                in bind (validate_context ctx) (\<lambda>_. Inr ctx))))
       (\<lambda>e. Inl (PyErr Exception (''Error parsing context file: '' @ str_of e)))"

text \<open>
  \<open>load_product_context\<close> returns its result together with the loader, whose cache it
  fills only after a successful parse.
\<close>

definition load_body ::
  "file_system \<Rightarrow> context_loader \<Rightarrow> pyerr + (product_context \<times> context_loader)" where
  "load_body fs self =
     (if \<not> path_exists fs (context_file_path self) then
        Inl (PyErr FileNotFoundError
               (''Product context file not found: '' @ context_file_path self))
      else
        bind (getmtime fs (context_file_path self)) (\<lambda>current_modified_time.
          (let reload =
                 bind (parse_context_file fs self) (\<lambda>ctx.
                   Inr (ctx, self\<lparr>cached_context := Some ctx,
                                   file_modified_time := Some current_modified_time\<rparr>))
           in case cached_context self of
                None \<Rightarrow> reload
              | Some cached \<Rightarrow>
                  if file_modified_time self \<noteq> Some current_modified_time then reload
                  else Inr (cached, self))))"

definition load_product_context ::
  "file_system \<Rightarrow> context_loader \<Rightarrow> (pyerr + product_context) \<times> context_loader" where
  "load_product_context fs self =
     (case except_Exception (load_body fs self)
             (\<lambda>e. Inl (PyErr Exception (''Error loading product context: '' @ str_of e))) of
        Inl e \<Rightarrow> (Inl e, self)
      | Inr (ctx, self') \<Rightarrow> (Inr ctx, self'))"

section \<open>Python values\<close>

text \<open>
  What \<open>json.loads\<close> returns: \<open>None\<close>, a bool, an int, a float, a str, a list or a
  dict with string keys.  A float is given by its value, a real number; a dict is the
  list of its items, the keys distinct.  The fields of a recommendation read from a reply
  hold such values, whatever their type.
\<close>

datatype json =
    JNull | JBool bool | JInt int | JFloat real | JStr string
  | JArr "json list" | JObj "(string \<times> json) list"

fun type_name :: "json \<Rightarrow> string" where
  "type_name JNull = ''NoneType''"
| "type_name (JBool b) = ''bool''"
| "type_name (JInt i) = ''int''"
| "type_name (JFloat x) = ''float''"
| "type_name (JStr s) = ''str''"
| "type_name (JArr xs) = ''list''"
| "type_name (JObj kvs) = ''dict''"

text \<open>The truth value of a Python value, as \<open>not v\<close> and \<open>v or d\<close> test it.\<close>

fun truthy :: "json \<Rightarrow> bool" where
  "truthy JNull = False"
| "truthy (JBool b) = b"
| "truthy (JInt i) = (i \<noteq> 0)"
| "truthy (JFloat x) = (x \<noteq> 0)"
| "truthy (JStr s) = (s \<noteq> [])"
| "truthy (JArr xs) = (xs \<noteq> [])"
| "truthy (JObj kvs) = (kvs \<noteq> [])"

definition py_or :: "json \<Rightarrow> json \<Rightarrow> json" where
  "py_or v d = (if truthy v then v else d)"

definition quoted :: "string \<Rightarrow> string" where
  "quoted s = [CHR 0x27] @ s @ [CHR 0x27]"

text \<open>\<open>d.get(k, default)\<close> on a dict.\<close>

definition dict_get :: "(string \<times> json) list \<Rightarrow> string \<Rightarrow> json \<Rightarrow> json" where
  "dict_get kvs k d = (case map_of kvs k of Some v \<Rightarrow> v | None \<Rightarrow> d)"

text \<open>The \<open>AttributeError\<close> of a method call on a value whose type has no such method.\<close>

definition no_attribute :: "json \<Rightarrow> string \<Rightarrow> pyerr" where
  "no_attribute v attr =
     PyErr AttributeError (quoted (type_name v) @ '' object has no attribute '' @ quoted attr)"

text \<open>\<open>v.get(k, default)\<close> on any value: only a dict has the method.\<close>

definition py_get :: "json \<Rightarrow> string \<Rightarrow> json \<Rightarrow> pyerr + json" where
  "py_get v k d =
     (case v of JObj kvs \<Rightarrow> Inr (dict_get kvs k d) | _ \<Rightarrow> Inl (no_attribute v ''get''))"

definition is_continuation :: "char \<Rightarrow> bool" where
  "is_continuation c = (let n = (of_char c :: nat) in 128 \<le> n \<and> n < 192)"

text \<open>The characters of a string: each leading byte with its continuation bytes.\<close>

function code_points :: "string \<Rightarrow> string list" where
  "code_points [] = []"
| "code_points (c # cs) =
     (c # takeWhile is_continuation cs) # code_points (dropWhile is_continuation cs)"
  by pat_completeness auto
termination
  by (relation "measure length") (auto simp: length_dropWhile_le less_Suc_eq_le)

text \<open>\<open>v[0]\<close>.\<close>

definition py_index0 :: "json \<Rightarrow> pyerr + json" where
  "py_index0 v =
     (case v of
        JArr xs \<Rightarrow> (case xs of [] \<Rightarrow> Inl (PyErr IndexError ''list index out of range'')
                              | x # _ \<Rightarrow> Inr x)
      | JStr s \<Rightarrow> (case code_points s of
                     [] \<Rightarrow> Inl (PyErr IndexError ''string index out of range'')
                   | c # _ \<Rightarrow> Inr (JStr c))
      | JObj kvs \<Rightarrow> Inl (PyErr KeyError ''0'')
      | _ \<Rightarrow> Inl (PyErr TypeError (quoted (type_name v) @ '' object is not subscriptable'')))"

text \<open>The elements a \<open>for\<close> loop over the value runs through.\<close>

definition py_iter :: "json \<Rightarrow> pyerr + json list" where
  "py_iter v =
     (case v of
        JArr xs \<Rightarrow> Inr xs
      | JStr s \<Rightarrow> Inr (map JStr (code_points s))
      | JObj kvs \<Rightarrow> Inr (map (\<lambda>kv. JStr (fst kv)) kvs)
      | _ \<Rightarrow> Inl (PyErr TypeError (quoted (type_name v) @ '' object is not iterable'')))"

section \<open>kiro\_client.py\<close>

record FoodRecommendation =
  food_name :: json
  location :: json
  price_range :: json
  crowd_info :: json
  local_tip :: json
  hygiene_rating :: json

record RecommendationResponse =
  area :: json
  recommendations :: "FoodRecommendation list"
  alternative_areas :: json
  local_context :: json

text \<open>
  What lies outside the program: the environment variables, the functions of the
  libraries \<open>json\<close> and \<open>hashlib\<close>, and the service, as the outcome of the
  \<open>n\<close>-th call of \<open>requests.post\<close> within one request (an exception or a response
  with its status code, its \<open>text\<close> and what its method \<open>json()\<close> gives).
\<close>

record http_response =
  status_code :: int
  response_text :: string
  json_result :: "pyerr + json"

record py_env =
  getenv :: "string \<Rightarrow> string option"
  json_dumps :: "json \<Rightarrow> string"
  json_loads :: "string \<Rightarrow> pyerr + json"
  md5_hexdigest :: "string \<Rightarrow> string"
  requests_post :: "nat \<Rightarrow> pyerr + http_response"

record kiro_client =
  api_key :: "string option"
  api_url :: "string option"
  timeout :: nat
  max_retries :: nat
  retry_delay :: nat
  response_cache :: "string \<rightharpoonup> RecommendationResponse"

text \<open>\<open>a or b\<close> on optional strings: \<open>None\<close> and the empty string are false.\<close>

definition or_else :: "string option \<Rightarrow> string option \<Rightarrow> string option" where
  "or_else a b = (case a of None \<Rightarrow> b | Some s \<Rightarrow> if s = [] then b else a)"

definition KiroClient :: "py_env \<Rightarrow> string option \<Rightarrow> string option \<Rightarrow> kiro_client" where
  "KiroClient env key url =
     \<lparr>api_key = or_else key (getenv env ''KIRO_API_KEY''),
      api_url = or_else url
                  (Some (case getenv env ''KIRO_API_URL'' of
                           None \<Rightarrow> ''https://api.kiro.ai/v1'' | Some u \<Rightarrow> u)),
      timeout = 30,
      max_retries = 3,
      retry_delay = 1,
      response_cache = Map.empty\<rparr>"

text \<open>What a request does besides returning: the posts and the sleeps, in order.\<close>

datatype effect = Post nat | Sleep nat

definition str_int :: "int \<Rightarrow> string" where
  "str_int i = (if i < 0 then CHR ''-'' # str_nat (nat (- i)) else str_nat (nat i))"

text \<open>\<open>result.get('choices', [{}])[0].get('message', {}).get('content', '')\<close>\<close>

definition extract_content :: "json \<Rightarrow> pyerr + json" where
  "extract_content result =
     bind (py_get result ''choices'' (JArr [JObj []])) (\<lambda>choices.
     bind (py_index0 choices) (\<lambda>choice.
     bind (py_get choice ''message'' (JObj [])) (\<lambda>message.
     py_get message ''content'' (JStr []))))"

text \<open>
  One pass through the body of the \<open>for\<close> loop of \<open>_send_kiro_request\<close> ends with a
  \<open>return\<close>, goes on to the next attempt (after a sleep or without one) or leaves
  the loop with \<open>break\<close>; the last two carry the new \<open>last_error\<close>.
\<close>

datatype step = Return json | Continue "string option" "nat option" | Break "string option"

text \<open>The \<open>try\<close> block once \<open>requests.post\<close> has returned a response.\<close>

definition on_response :: "kiro_client \<Rightarrow> nat \<Rightarrow> string option \<Rightarrow> http_response \<Rightarrow> pyerr + step" where
  "on_response self attempt last_error response =
     (if status_code response = 200 then
        bind (json_result response) (\<lambda>result.
        bind (extract_content result) (\<lambda>content. Inr (Return content)))
      else if status_code response = 429 then
        (if attempt < max_retries self - 1 then
           Inr (Continue last_error (Some (retry_delay self * 2 ^ attempt)))
         else Inl (PyErr Exception ''Rate limit exceeded''))
      else
        Inl (PyErr Exception
               (''API error: '' @ str_int (status_code response) @ '' - '' @ response_text response)))"

text \<open>The \<open>try\<close> statement with its three \<open>except\<close> clauses, tried in order.\<close>

definition attempt_step :: "py_env \<Rightarrow> kiro_client \<Rightarrow> nat \<Rightarrow> string option \<Rightarrow> step" where
  "attempt_step env self attempt last_error =
     (case bind (requests_post env attempt) (on_response self attempt last_error) of
        Inr st \<Rightarrow> st
      | Inl e \<Rightarrow>
          if exc_class_of e = Timeout then
            Continue (Some ''Request timeout'')
              (if attempt < max_retries self - 1 then Some (retry_delay self) else None)
          else if exc_class_of e = ConnectionError then
            Continue (Some ''Connection error'')
              (if attempt < max_retries self - 1 then Some (retry_delay self) else None)
          else Break (Some (str_of e)))"

definition failed_after :: "kiro_client \<Rightarrow> string option \<Rightarrow> pyerr" where
  "failed_after self last_error =
     PyErr Exception
       (''Failed to get response from Kiro after '' @ str_nat (max_retries self) @
        '' attempts. Last error: '' @ (case last_error of None \<Rightarrow> ''None'' | Some m \<Rightarrow> m))"

text \<open>The loop \<open>for attempt in range(self.max_retries)\<close> from \<open>attempt\<close> on.\<close>

function send_loop ::
  "py_env \<Rightarrow> kiro_client \<Rightarrow> nat \<Rightarrow> string option \<Rightarrow> (pyerr + json) \<times> effect list" where
  "send_loop env self attempt last_error =
     (if attempt < max_retries self then
        (case attempt_step env self attempt last_error of
           Return content \<Rightarrow> (Inr content, [Post attempt])
         | Break err \<Rightarrow> (Inl (failed_after self err), [Post attempt])
         | Continue err pause \<Rightarrow>
             (let (r, effects) = send_loop env self (Suc attempt) err
              in (r, Post attempt # (case pause of None \<Rightarrow> [] | Some d \<Rightarrow> [Sleep d]) @ effects)))
      else (Inl (failed_after self last_error), []))"
  by pat_completeness auto
termination
  by (relation "measure (\<lambda>(env, self, attempt, last_error). max_retries self - attempt)") auto

declare send_loop.simps [simp del]

text \<open>The first line that starts with \<open>Area:\<close>, cut at the next \<open>Area:\<close>, stripped.\<close>

definition mock_area :: "string \<Rightarrow> string" where
  "mock_area prompt =
     (if py_contains ''Area:'' prompt then
        (case filter (\<lambda>line. py_startswith line ''Area:'') (py_split (CHR ''\<newline>'') prompt) of
           [] \<Rightarrow> ''Connaught Place''
         | area_line # _ \<Rightarrow> py_strip (before_first ''Area:'' (drop 5 area_line)))
      else ''Connaught Place'')"

definition mock_recommendation ::
  "string \<Rightarrow> string \<Rightarrow> string \<Rightarrow> string \<Rightarrow> string \<Rightarrow> string \<Rightarrow> json" where
  "mock_recommendation f l p c t h =
     JObj [(''food_name'', JStr f), (''location'', JStr l), (''price_range'', JStr p),
           (''crowd_info'', JStr c), (''local_tip'', JStr t), (''hygiene_rating'', JStr h)]"

definition mock_response :: "string \<Rightarrow> json" where
  "mock_response a =
     JObj [(''area'', JStr a),
           (''recommendations'',
            JArr [mock_recommendation ''Momos'' ''Janpath Lane'' (rupee @ ''70-90'')
                    ''High after 6 PM, best before 7 PM''
                    ''Avoid the stalls right at metro exit, walk a bit inside for better quality''
                    ''Green'',
                  mock_recommendation ''Chaat'' ''Palika Bazaar area'' (rupee @ ''60-120'')
                    ''Busy throughout evening''
                    ''Try the bhel puri, it's fresh and tasty''
                    ''Yellow'',
                  mock_recommendation ''Kulfi'' ''Connaught Circus'' (rupee @ ''40-80'')
                    ''Popular after dinner''
                    ''Perfect for ending your street food tour''
                    ''Green'']),
           (''alternative_areas'', JArr [JStr ''Karol Bagh'', JStr ''Lajpat Nagar'']),
           (''local_context'',
            JStr (''Bhai, '' @ a @
                  '' is great for street food! Evening time is perfect, just watch out for the crowds. The momos here are famous among locals.''))]"

definition get_mock_response :: "py_env \<Rightarrow> string \<Rightarrow> string" where
  "get_mock_response env prompt = json_dumps env (mock_response (mock_area prompt))"

definition send_kiro_request ::
  "py_env \<Rightarrow> kiro_client \<Rightarrow> string \<Rightarrow> (pyerr + json) \<times> effect list" where
  "send_kiro_request env self prompt =
     (if api_key self = None \<or> api_key self = Some [] then
        (Inr (JStr (get_mock_response env prompt)), [])
      else send_loop env self 0 None)"

text \<open>The body of the loop of \<open>_parse_response\<close>: an entry that is no dict is skipped.\<close>

definition recommendation_of :: "json \<Rightarrow> FoodRecommendation option" where
  "recommendation_of rec_data =
     (case rec_data of
        JObj kvs \<Rightarrow>
          Some \<lparr>food_name = dict_get kvs ''food_name'' (JStr ''Unknown Food''),
                location = dict_get kvs ''location'' (JStr ''Location not specified''),
                price_range = dict_get kvs ''price_range'' (JStr ''Price varies''),
                crowd_info = dict_get kvs ''crowd_info'' (JStr ''Crowd info not available''),
                local_tip = dict_get kvs ''local_tip'' (JStr ''No specific tips''),
                hygiene_rating = dict_get kvs ''hygiene_rating'' (JStr ''Yellow'')\<rparr>
      | _ \<Rightarrow> None)"

definition clean_response :: "string \<Rightarrow> string" where
  "clean_response raw =
     (let cleaned = py_strip raw;
          cleaned = (if py_startswith cleaned ''```json'' then drop 7 cleaned else cleaned);
          cleaned = (if py_endswith cleaned ''```'' then take (length cleaned - 3) cleaned
                     else cleaned)
      in py_strip cleaned)"

text \<open>The \<open>try\<close> block of \<open>_parse_response\<close>, on the value that the request returned.\<close>

definition parse_body :: "py_env \<Rightarrow> json \<Rightarrow> pyerr + RecommendationResponse" where
  "parse_body env raw_response =
     (case raw_response of
        JStr raw \<Rightarrow>
          bind (json_loads env (clean_response raw)) (\<lambda>data.
            case data of
              JObj kvs \<Rightarrow>
                bind (py_iter (dict_get kvs ''recommendations'' (JArr []))) (\<lambda>raw_recs.
                  Inr \<lparr>area = dict_get kvs ''area'' (JStr ''Unknown Area''),
                       recommendations = List.map_filter recommendation_of raw_recs,
                       alternative_areas = dict_get kvs ''alternative_areas'' (JArr []),
                       local_context = dict_get kvs ''local_context''
                                         (JStr ''No additional context provided'')\<rparr>)
            | _ \<Rightarrow> Inl (PyErr ValueError ''Response is not a JSON object''))
      | _ \<Rightarrow> Inl (no_attribute raw_response ''strip''))"

definition parse_response :: "py_env \<Rightarrow> json \<Rightarrow> pyerr + RecommendationResponse" where
  "parse_response env raw_response =
     (case parse_body env raw_response of
        Inr response \<Rightarrow> Inr response
      | Inl e \<Rightarrow>
          if exc_class_of e = JSONDecodeError then
            Inl (PyErr Exception (''Invalid JSON response from Kiro: '' @ str_of e))
          else Inl (PyErr Exception (''Error parsing Kiro response: '' @ str_of e)))"

definition create_fallback_response :: "string \<Rightarrow> RecommendationResponse" where
  "create_fallback_response error_message =
     \<lparr>area = JStr ''Error'',
      recommendations =
        [\<lparr>food_name = JStr ''Service Temporarily Unavailable'',
          location = JStr ''Please try again later'',
          price_range = JStr ''N/A'',
          crowd_info = JStr ''Our AI expert is taking a chai break'',
          local_tip = JStr (''Error: '' @ error_message),
          hygiene_rating = JStr ''Yellow''\<rparr>],
      alternative_areas = JArr [],
      local_context = JStr ''Sorry yaar, our Delhi expert AI is having some technical issues. Please try again in a few minutes!''\<rparr>"

definition get_cache_key :: "py_env \<Rightarrow> string \<Rightarrow> string" where
  "get_cache_key env prompt = md5_hexdigest env prompt"

text \<open>
  The \<open>try\<close> block of \<open>query\<close>: the response with the client as the block leaves it,
  or the exception; in both cases with the effects of the request.
\<close>

definition query_body ::
  "py_env \<Rightarrow> kiro_client \<Rightarrow> string \<Rightarrow>
   (pyerr + RecommendationResponse \<times> kiro_client) \<times> effect list" where
  "query_body env self prompt =
     (let cache_key = get_cache_key env prompt in
      case response_cache self cache_key of
        Some cached \<Rightarrow> (Inr (cached, self), [])
      | None \<Rightarrow>
          (let (raw_response, effects) = send_kiro_request env self prompt
           in (bind raw_response (\<lambda>raw.
               bind (parse_response env raw) (\<lambda>parsed_response.
                 Inr (parsed_response,
                      self\<lparr>response_cache := (response_cache self)(cache_key \<mapsto> parsed_response)\<rparr>))),
               effects)))"

definition query ::
  "py_env \<Rightarrow> kiro_client \<Rightarrow> string \<Rightarrow>
   (pyerr + RecommendationResponse \<times> kiro_client) \<times> effect list" where
  "query env self prompt =
     (let (r, effects) = query_body env self prompt
      in (except_Exception r (\<lambda>e. Inr (create_fallback_response (str_of e), self)), effects))"

section \<open>prompt\_builder.py\<close>

record UserQuery =
  area :: string
  time_preference :: string
  food_preferences :: string
  budget_category :: string

record prompt_builder =
  system_instructions :: string

definition get_system_instructions :: string where
  "get_system_instructions = py_join ''\<newline>''
     [''You are a Delhi street food expert and local guide. You have deep knowledge of Delhi's street food scene and speak like a local Delhiite. Your job is to provide authentic, practical recommendations based ONLY on the local knowledge provided to you.'',
      '''',
      ''CRITICAL RULES:'',
      ''- Use ONLY the information provided in the CONTEXT section below'',
      ''- Never use external knowledge or make up information'',
      ''- Respond like a friendly local Delhi person who knows the real street food scene'',
      ''- Include practical tips about timing, crowds, and hygiene'',
      ''- Use local expressions and slang when appropriate'',
      ''- Always mention prices in Indian Rupees ('' @ rupee @ '')'',
      ''- If you don't have information about a specific area or food, say so honestly'']"

definition PromptBuilder :: prompt_builder where
  "PromptBuilder = \<lparr>system_instructions = get_system_instructions\<rparr>"

definition build_system_section :: "prompt_builder \<Rightarrow> string" where
  "build_system_section self = ''SYSTEM INSTRUCTIONS:\<newline>'' @ system_instructions self"

definition build_context_section :: "product_context \<Rightarrow> string" where
  "build_context_section ctx =
     (let context_parts = [''=== COMPLETE LOCAL KNOWLEDGE BASE ==='', raw_content ctx];
          context_parts = context_parts @ [''\<newline>=== QUICK REFERENCE ===''];
          context_parts =
            (if areas ctx \<noteq> [] then
               context_parts @ [''Available Areas: '' @ py_join '', '' (areas ctx)]
             else context_parts);
          context_parts =
            (if response_guidelines ctx \<noteq> [] then
               context_parts @ [''Response Guidelines:''] @
               map (\<lambda>guideline. ''- '' @ guideline) (response_guidelines ctx)
             else context_parts);
          context_parts =
            (if local_tips ctx \<noteq> [] then
               context_parts @ [''Local Tips:''] @
               map (\<lambda>tip. ''- '' @ tip) (take 5 (local_tips ctx))
             else context_parts)
      in ''CONTEXT:\<newline>'' @ py_join ''\<newline>'' context_parts)"

definition create_natural_query :: "UserQuery \<Rightarrow> string" where
  "create_natural_query user_query =
     (let query_parts =
            (if UserQuery.area user_query \<noteq> [] \<and> time_preference user_query \<noteq> [] then
               [''Street food recommendations for '' @ UserQuery.area user_query @
                '' during '' @ py_lower (time_preference user_query)]
             else if UserQuery.area user_query \<noteq> [] then
               [''Street food recommendations for '' @ UserQuery.area user_query]
             else []);
          query_parts =
            (if food_preferences user_query \<noteq> [] then
               query_parts @ [''looking for '' @ food_preferences user_query]
             else query_parts);
          query_parts =
            (if budget_category user_query \<noteq> [] then
               query_parts @ [''with '' @ py_lower (budget_category user_query) @ '' budget'']
             else query_parts)
      in if query_parts \<noteq> [] then py_join '', '' query_parts
         else ''General street food recommendations'')"

definition build_user_query_section :: "UserQuery \<Rightarrow> string" where
  "build_user_query_section user_query =
     py_join ''\<newline>''
       [''USER QUERY:'',
        ''Area: '' @ UserQuery.area user_query,
        ''Time: '' @ time_preference user_query,
        ''Food Preferences: '' @ food_preferences user_query,
        ''Budget: '' @ budget_category user_query,
        ''Natural Query: '' @ create_natural_query user_query]"

definition build_response_format_section :: string where
  "build_response_format_section = py_join ''\<newline>''
     [''RESPONSE FORMAT:'',
      ''Please provide your recommendations in the following JSON structure:'',
      '''',
      ''{'',
      ''  \"area\": \"requested area name\",'',
      ''  \"recommendations\": ['',
      ''    {'',
      ''      \"food_name\": \"name of the food item\",'',
      ''      \"location\": \"specific location or area within the locality\",'',
      ''      \"price_range\": \"price in '' @ rupee @ '' format (e.g., '' @ rupee @ ''70-90)\",'',
      ''      \"crowd_info\": \"timing and crowd information\",'',
      ''      \"local_tip\": \"practical local advice\",'',
      ''      \"hygiene_rating\": \"Green/Yellow/Red signal based on local knowledge\"'',
      ''    }'',
      ''  ],'',
      ''  \"alternative_areas\": [\"list of nearby areas if no good options in requested area\"],'',
      ''  \"local_context\": \"additional local insights and practical advice\"'',
      ''}'',
      '''',
      ''IMPORTANT:'',
      ''- Respond ONLY with valid JSON'',
      ''- Include 3-5 recommendations if available'',
      ''- Use local Delhi expressions and tone in the text fields'',
      ''- Base everything on the provided context'',
      ''- If information is not available, mention it honestly'']"

text \<open>
  Of the checks of \<open>_validate_inputs\<close>, the context is never the empty dict and the
  query is a \<open>UserQuery\<close>; the test that the area is among the known ones does nothing.
\<close>

definition validate_inputs :: "product_context \<Rightarrow> UserQuery \<Rightarrow> pyerr + unit" where
  "validate_inputs ctx user_query =
     (if UserQuery.area user_query = [] then
        Inl (PyErr ValueError ''User query must include an area'')
      else Inr ())"

text \<open>
  \<open>build_prompt\<close> returns its result together with the builder, the only object it
  has access to besides its arguments.
\<close>

definition build_prompt ::
  "prompt_builder \<Rightarrow> product_context \<Rightarrow> UserQuery \<Rightarrow> (pyerr + string) \<times> prompt_builder" where
  "build_prompt self ctx user_query =
     (except_Exception
        (bind (validate_inputs ctx user_query) (\<lambda>_.
           (let prompt_parts =
                  [build_system_section self,
                   build_context_section ctx,
                   build_user_query_section user_query,
                   build_response_format_section]
            in Inr (py_join ''\<newline>\<newline>'' prompt_parts))))
        (\<lambda>e. Inl (PyErr Exception (''Error building prompt: '' @ str_of e))),
      self)"

section \<open>recommendation\_engine.py\<close>

record recommendation_engine =
  context_loader :: context_loader
  prompt_builder :: prompt_builder
  kiro_client :: kiro_client
  context_cache :: "product_context option"

definition RecommendationEngine :: "py_env \<Rightarrow> string option \<Rightarrow> recommendation_engine" where
  "RecommendationEngine env path =
     \<lparr>context_loader =
        (case path of
           None \<Rightarrow> ContextLoader default_context_file_path
         | Some p \<Rightarrow>
             if p = [] then ContextLoader default_context_file_path else ContextLoader p),
      prompt_builder = PromptBuilder,
      kiro_client = KiroClient env None None,
      context_cache = None\<rparr>"

definition get_context ::
  "file_system \<Rightarrow> recommendation_engine \<Rightarrow> (pyerr + product_context) \<times> recommendation_engine" where
  "get_context fs self =
     (case context_cache self of
        Some ctx \<Rightarrow> (Inr ctx, self)
      | None \<Rightarrow>
          (case load_product_context fs (context_loader self) of
             (Inl e, loader) \<Rightarrow> (Inl e, self\<lparr>context_loader := loader\<rparr>)
           | (Inr ctx, loader) \<Rightarrow>
               (Inr ctx, self\<lparr>context_loader := loader, context_cache := Some ctx\<rparr>)))"

definition default_areas :: "string list" where
  "default_areas =
     [''Connaught Place'', ''Lajpat Nagar'', ''Chandni Chowk'',
      ''Karol Bagh'', ''Greater Kailash'', ''Alaknanda'']"

definition get_areas_list ::
  "file_system \<Rightarrow> recommendation_engine \<Rightarrow> (pyerr + string list) \<times> recommendation_engine" where
  "get_areas_list fs self =
     (let (r, self') = get_context fs self
      in (except_Exception (bind r (\<lambda>ctx. Inr (areas ctx))) (\<lambda>e. Inr default_areas), self'))"

text \<open>The two loops of \<open>_process_area_input\<close>: the first entry that passes the test.\<close>

fun first_area :: "(string \<Rightarrow> bool) \<Rightarrow> string list \<Rightarrow> string option" where
  "first_area test [] = None"
| "first_area test (available_area # rest) =
     (if test available_area then Some available_area else first_area test rest)"

definition process_area_input :: "string \<Rightarrow> product_context \<Rightarrow> pyerr + string" where
  "process_area_input raw ctx =
     (if raw = [] then Inl (PyErr ValueError ''Area is required'')
      else
        (let a = py_strip raw; available_areas = areas ctx in
         if a \<in> set available_areas then Inr a
         else
           (case first_area (\<lambda>available_area. py_lower a = py_lower available_area)
                   available_areas of
              Some available_area \<Rightarrow> Inr available_area
            | None \<Rightarrow>
                (case first_area
                        (\<lambda>available_area.
                           py_contains (py_lower a) (py_lower available_area) \<or>
                           py_contains (py_lower available_area) (py_lower a))
                        available_areas of
                   Some available_area \<Rightarrow> Inr available_area
                 | None \<Rightarrow> Inr a))))"

definition get_nearby_areas :: "string \<Rightarrow> product_context \<Rightarrow> string list" where
  "get_nearby_areas a ctx = take 3 (filter (\<lambda>x. x \<noteq> a) (areas ctx))"

definition create_fallback_recommendations ::
  "UserQuery \<Rightarrow> product_context \<Rightarrow> RecommendationResponse" where
  "create_fallback_recommendations user_query ctx =
     (let area_foods =
            (case map_of (food_options ctx) (UserQuery.area user_query) of
               Some foods \<Rightarrow> foods | None \<Rightarrow> []);
          recs =
            (if area_foods \<noteq> [] then
               map (\<lambda>food_data.
                      \<lparr>food_name = JStr (item_name food_data),
                       location = JStr (UserQuery.area user_query @ '' area''),
                       price_range = JStr (item_price food_data),
                       crowd_info =
                         JStr (''Popular during '' @ py_lower (time_preference user_query)),
                       local_tip = JStr (item_details food_data),
                       hygiene_rating = JStr ''Yellow''\<rparr>)
                   (take 3 area_foods)
             else
               [\<lparr>food_name = JStr ''Local Street Food'',
                 location = JStr (UserQuery.area user_query @ '' market area''),
                 price_range = JStr ''Rs.50-150'',
                 crowd_info = JStr ''Check local timings'',
                 local_tip = JStr ''Ask locals for the best spots in this area'',
                 hygiene_rating = JStr ''Yellow''\<rparr>])
      in \<lparr>RecommendationResponse.area = JStr (UserQuery.area user_query),
          recommendations = recs,
          alternative_areas =
            JArr (map JStr (get_nearby_areas (UserQuery.area user_query) ctx)),
          local_context =
            JStr (''Limited information available for '' @ UserQuery.area user_query @
                  ''. These are general recommendations.'')\<rparr>)"

definition clean_recommendation :: "UserQuery \<Rightarrow> FoodRecommendation \<Rightarrow> FoodRecommendation" where
  "clean_recommendation user_query rec =
     \<lparr>food_name = py_or (food_name rec) (JStr ''Street Food Item''),
      location = py_or (location rec) (JStr (''Near '' @ UserQuery.area user_query)),
      price_range = py_or (price_range rec) (JStr ''Price varies''),
      crowd_info = py_or (crowd_info rec) (JStr ''Crowd info not available''),
      local_tip = py_or (local_tip rec) (JStr ''Enjoy the local flavors!''),
      hygiene_rating =
        (if hygiene_rating rec \<in> set [JStr ''Green'', JStr ''Yellow'', JStr ''Red'']
         then hygiene_rating rec else JStr ''Yellow'')\<rparr>"

definition post_process_response ::
  "RecommendationResponse \<Rightarrow> UserQuery \<Rightarrow> product_context \<Rightarrow> RecommendationResponse" where
  "post_process_response response user_query ctx =
     (if recommendations response = [] then create_fallback_recommendations user_query ctx
      else
        (let response =
               response\<lparr>recommendations :=
                          map (clean_recommendation user_query) (recommendations response)\<rparr>
         in if \<not> truthy (RecommendationResponse.area response) \<or>
               RecommendationResponse.area response = JStr ''Unknown Area''
            then response\<lparr>RecommendationResponse.area := JStr (UserQuery.area user_query)\<rparr>
            else response))"

definition create_error_response :: "string \<Rightarrow> string \<Rightarrow> RecommendationResponse" where
  "create_error_response error_message a =
     \<lparr>RecommendationResponse.area = JStr a,
      recommendations =
        [\<lparr>food_name = JStr ''Error'',
          location = JStr ''Service unavailable'',
          price_range = JStr ''N/A'',
          crowd_info = JStr ''Please try again'',
          local_tip = JStr (''Error: '' @ error_message),
          hygiene_rating = JStr ''Red''\<rparr>],
      alternative_areas = JArr [],
      local_context =
        JStr ''Sorry, we're having technical difficulties. Please try again later.''\<rparr>"

text \<open>
  \<open>_post_process_response\<close> assigns to the response it is given when that response
  has recommendations.  A response that \<open>query\<close> took from its cache or stored there
  is the object the cache holds, so the assignment is seen through the cache as well;
  the fallback response of \<open>query\<close> is a fresh object.  The cache holds an entry
  under the key of the prompt exactly when \<open>query\<close> returned the cached object.
\<close>

definition share_with_cache ::
  "py_env \<Rightarrow> string \<Rightarrow> RecommendationResponse \<Rightarrow> RecommendationResponse \<Rightarrow> kiro_client \<Rightarrow> kiro_client" where
  "share_with_cache env prompt response processed client =
     (if recommendations response \<noteq> [] \<and>
         response_cache client (get_cache_key env prompt) \<noteq> None
      then client\<lparr>response_cache := (response_cache client)(get_cache_key env prompt \<mapsto> processed)\<rparr>
      else client)"

text \<open>
  The \<open>try\<close> block of \<open>get_recommendations\<close>, with the engine as the block leaves it
  and the effects of the request.
\<close>

definition get_recommendations_body ::
  "py_env \<Rightarrow> file_system \<Rightarrow> recommendation_engine \<Rightarrow> string \<Rightarrow> string \<Rightarrow> string \<Rightarrow> string \<Rightarrow>
   (pyerr + RecommendationResponse) \<times> recommendation_engine \<times> effect list" where
  "get_recommendations_body env fs self a time_pref food_pref budget =
     (case get_context fs self of
        (Inl e, self1) \<Rightarrow> (Inl e, self1, [])
      | (Inr ctx, self1) \<Rightarrow>
          (case process_area_input a ctx of
             Inl e \<Rightarrow> (Inl e, self1, [])
           | Inr processed_area \<Rightarrow>
               (let user_query =
                      \<lparr>UserQuery.area = processed_area, time_preference = time_pref,
                       food_preferences = food_pref, budget_category = budget\<rparr>
                in case build_prompt (prompt_builder self1) ctx user_query of
                     (Inl e, builder) \<Rightarrow> (Inl e, self1\<lparr>prompt_builder := builder\<rparr>, [])
                   | (Inr prompt, builder) \<Rightarrow>
                       (let self2 = self1\<lparr>prompt_builder := builder\<rparr> in
                        case query env (kiro_client self2) prompt of
                          (Inl e, effects) \<Rightarrow> (Inl e, self2, effects)
                        | (Inr (response, client), effects) \<Rightarrow>
                            (let processed = post_process_response response user_query ctx
                             in (Inr processed,
                                 self2\<lparr>kiro_client :=
                                          share_with_cache env prompt response processed client\<rparr>,
                                 effects))))))"

definition get_recommendations ::
  "py_env \<Rightarrow> file_system \<Rightarrow> recommendation_engine \<Rightarrow> string \<Rightarrow> string \<Rightarrow> string \<Rightarrow> string \<Rightarrow>
   (pyerr + RecommendationResponse) \<times> recommendation_engine \<times> effect list" where
  "get_recommendations env fs self a time_pref food_pref budget =
     (case get_recommendations_body env fs self a time_pref food_pref budget of
        (r, self', effects) \<Rightarrow>
          (except_Exception r (\<lambda>e. Inr (create_error_response (str_of e) a)), self', effects))"


fun attempts :: "effect list \<Rightarrow> nat" where
  "attempts [] = 0"
| "attempts (Post n # es) = Suc (attempts es)"
| "attempts (Sleep d # es) = attempts es"

section \<open>Concrete inputs\<close>

text \<open>A file system without the knowledge document, and one that holds a small one.\<close>

definition no_file :: file_system where
  "no_file =
     \<lparr>path_exists = (\<lambda>p. False),
      getmtime = (\<lambda>p. Inl (PyErr FileNotFoundError ''No such file or directory'')),
      read_text = (\<lambda>p. Inl (PyErr FileNotFoundError ''No such file or directory''))\<rparr>"

definition small_doc :: string where
  "small_doc =
     ''### Connaught Place\<newline>- **Momos**: Janpath\<newline>## Response Guidelines\<newline>- Be friendly''"

definition file_with :: "string \<Rightarrow> file_system" where
  "file_with content =
     \<lparr>path_exists = (\<lambda>p. True), getmtime = (\<lambda>p. Inr 1), read_text = (\<lambda>p. Inr content)\<rparr>"

text \<open>
  An environment without a credential, in which no reply parses and the service cannot
  be reached; the others differ from it in the credential and in what the service does.
\<close>

definition plain_env :: py_env where
  "plain_env =
     \<lparr>getenv = (\<lambda>v. None),
      json_dumps = (\<lambda>v. ''{}''),
      json_loads = (\<lambda>s. Inl (PyErr JSONDecodeError ''Expecting value'')),
      md5_hexdigest = (\<lambda>s. s),
      requests_post = (\<lambda>n. Inl (PyErr ConnectionError ''unreachable''))\<rparr>"

definition with_credential :: "py_env \<Rightarrow> py_env" where
  "with_credential env =
     env\<lparr>getenv := (\<lambda>v. if v = ''KIRO_API_KEY'' then Some ''secret'' else None)\<rparr>"

definition answering :: "int \<Rightarrow> string \<Rightarrow> py_env" where
  "answering code body =
     with_credential
       (plain_env\<lparr>requests_post :=
          (\<lambda>n. Inr \<lparr>status_code = code, response_text = body,
                     json_result = Inl (PyErr JSONDecodeError ''Expecting value'')\<rparr>)\<rparr>)"

definition small_context :: product_context where
  "small_context = build_context small_doc"





section \<open>Auxiliary facts\<close>





lemma str_nat_3: "str_nat 3 = ''3''" by code_simp





lemmas send_loop_unfold =
  send_loop.simps [of _ _ 0] send_loop.simps [of _ _ "Suc 0"]
  send_loop.simps [of _ _ "Suc (Suc 0)"] send_loop.simps [of _ _ "Suc (Suc (Suc 0))"]






lemma query_of_failed_request:
  assumes "response_cache self (get_cache_key env prompt) = None"
    and "send_kiro_request env self prompt = (Inl e, effects)"
  shows "query env self prompt = (Inr (create_fallback_response (str_of e), self), effects)"
  using assms by (simp add: query_def query_body_def Let_def bind_def except_Exception_def)

lemma str_int_500: "str_int 500 = ''500''" by code_simp







lemma not_space_hash: "\<not> is_space (CHR ''#'')" "\<not> is_space (CHR ''*'')"
  by (simp_all add: is_space_def)

lemma all_space_no_area:
  "\<forall>c\<in>set s. is_space c \<Longrightarrow> re_findall area_pattern s = []"
proof (induction s)
  case Nil
  show ?case by simp
next
  case (Cons c cs)
  then have "c \<noteq> CHR ''#''" using not_space_hash by auto
  then have "area_pattern (c # cs) = None" by (simp add: area_pattern_def)
  with Cons show ?case by simp
qed

lemma all_space_no_label:
  "\<forall>c\<in>set s. is_space c \<Longrightarrow> re_findall bold_label_pattern s = []"
proof (induction s)
  case Nil
  show ?case by simp
next
  case (Cons c cs)
  then have "c \<noteq> CHR ''*''" using not_space_hash by auto
  then have "bold_label_pattern (c # cs) = None" by (simp add: bold_label_pattern_def)
  with Cons show ?case by simp
qed

lemma py_strip_empty: "py_strip s = [] \<Longrightarrow> \<forall>c\<in>set s. is_space c"
proof -
  assume "py_strip s = []"
  then have "dropWhile is_space (rev (dropWhile is_space s)) = []"
    by (simp add: py_strip_def)
  then have a: "\<forall>c\<in>set (dropWhile is_space s). is_space c"
    by (simp add: dropWhile_eq_Nil_conv)
  have "dropWhile is_space s = []"
  proof (cases "dropWhile is_space s")
    case Nil
    then show ?thesis .
  next
    case (Cons x xs)
    then have "\<not> is_space x" by (metis hd_dropWhile list.sel(1) list.distinct(1))
    with a Cons show ?thesis by simp
  qed
  then show ?thesis by (simp add: dropWhile_eq_Nil_conv)
qed

lemma blank_no_areas: "py_strip content = [] \<Longrightarrow> extract_areas content = []"
  using py_strip_empty [of content]
  by (simp add: extract_areas_def all_space_no_area all_space_no_label)


lemma parse_context_file_ok:
  assumes "read_text fs (context_file_path self) = Inr content"
    and "extract_areas content \<noteq> []" "extract_food_options content \<noteq> []"
    and "extract_response_guidelines content \<noteq> []"
  shows "parse_context_file fs self = Inr (build_context content)"
proof -
  from assms(2) have "py_strip content \<noteq> []" using blank_no_areas by blast
  with assms show ?thesis
    by (simp add: parse_context_file_def except_Exception_def bind_def validate_context_def
        build_context_def Let_def)
qed

lemma small_doc_extracts:
  "extract_areas small_doc = [''Connaught Place'', ''Momos'']"
  "extract_food_options small_doc =
     [(''Connaught Place'',
       [\<lparr>item_name = ''Momos'', item_details = ''Janpath'', item_price = ''Price varies''\<rparr>])]"
  "extract_response_guidelines small_doc = [''Be friendly'']"
  by code_simp+




lemma query_returns:
  "\<exists>response client effects. query env self prompt = (Inr (response, client), effects)"
proof (cases "query_body env self prompt")
  case (Pair r effects)
  then show ?thesis
    by (cases r) (auto simp: query_def except_Exception_def)
qed

lemma post_process_nonempty:
  "recommendations (post_process_response response user_query ctx) \<noteq> []"
  by (auto simp: post_process_response_def create_fallback_recommendations_def Let_def)

lemma post_process_area:
  "RecommendationResponse.area (post_process_response response user_query ctx) =
     (if recommendations response = [] \<or> \<not> truthy (RecommendationResponse.area response) \<or>
         RecommendationResponse.area response = JStr ''Unknown Area''
      then JStr (UserQuery.area user_query) else RecommendationResponse.area response)"
  by (auto simp: post_process_response_def create_fallback_recommendations_def Let_def)

lemma build_prompt_builder: "snd (build_prompt self ctx user_query) = self"
  by (simp add: build_prompt_def)

lemma get_context_keeps:
  "kiro_client (snd (get_context fs self)) = kiro_client self"
  "prompt_builder (snd (get_context fs self)) = prompt_builder self"
  by (auto simp: get_context_def split: option.splits prod.splits sum.splits)

lemma build_prompt_Inr:
  "UserQuery.area user_query \<noteq> [] \<Longrightarrow>
   \<exists>prompt. build_prompt self ctx user_query = (Inr prompt, self)"
  by (simp add: build_prompt_def validate_inputs_def except_Exception_def bind_def)

lemma query_500:
  "query (answering 500 ''down'') (KiroClient (answering 500 ''down'') None None) prompt =
     (Inr (create_fallback_response
             ''Failed to get response from Kiro after 3 attempts. Last error: API error: 500 - down'',
           KiroClient (answering 500 ''down'') None None), [Post 0])"
proof -
  have s: "send_kiro_request (answering 500 ''down'')
             (KiroClient (answering 500 ''down'') None None) prompt =
     (Inl (PyErr Exception
             ''Failed to get response from Kiro after 3 attempts. Last error: API error: 500 - down''),
      [Post 0])"
    by (simp add: send_kiro_request_def KiroClient_def answering_def with_credential_def
        plain_env_def or_else_def send_loop.simps [of _ _ 0] attempt_step_def on_response_def
        bind_def failed_after_def str_nat_3 str_int_500)
  have c: "response_cache (KiroClient (answering 500 ''down'') None None)
             (get_cache_key (answering 500 ''down'') prompt) = None"
    by (simp add: KiroClient_def)
  from query_of_failed_request [OF c s] show ?thesis by simp
qed

lemma context_of_small_doc:
  "fst (get_context (file_with small_doc) (RecommendationEngine (answering 500 ''down'') None)) =
     Inr small_context"
  by (simp add: get_context_def RecommendationEngine_def or_else_def ContextLoader_def
      load_product_context_def load_body_def except_Exception_def file_with_def bind_def
      parse_context_file_ok [where content = small_doc] small_doc_extracts small_context_def
      split: prod.splits)


lemma map_entry_Nil_iff: "AList.map_entry k f al = [] \<longleftrightarrow> al = []"
  by (cases al) (auto split: if_splits)

lemma food_options_step_empty:
  "snd (food_options_step (ca, fo) line) = [] \<longleftrightarrow>
     fo = [] \<and> re_match area_pattern line = None"
  by (auto simp: food_options_step_def Let_def map_entry_Nil_iff
      split: option.splits prod.splits if_splits)

lemma food_options_fold_empty:
  "snd (foldl food_options_step st lines) = [] \<longleftrightarrow>
     snd st = [] \<and> (\<forall>line\<in>set lines. re_match area_pattern line = None)"
proof (induction lines arbitrary: st)
  case Nil
  show ?case by simp
next
  case (Cons line lines)
  obtain ca fo where st: "st = (ca, fo)" by (cases st)
  show ?case
    using Cons [of "food_options_step st line"] food_options_step_empty [of ca fo line]
    by (auto simp: st)
qed

lemma food_options_nonempty_iff:
  "extract_food_options content \<noteq> [] \<longleftrightarrow>
     (\<exists>line\<in>set (py_split (CHR ''\<newline>'') content). re_match area_pattern line \<noteq> None)"
  by (simp add: extract_food_options_def food_options_fold_empty)

section \<open>The gateway never raises\<close>




section \<open>What the orchestrator returns\<close>

text \<open>
  C2, as amended.  Every call of \<open>get_recommendations\<close> returns a response with at least
  one recommendation and raises nothing.  When the pipeline has raised, the response is
  the error response and its area is the requested area, empty or not.  Otherwise its
  area is the area of the response of the gateway when that response has recommendations
  and an area that is neither empty nor \<open>Unknown Area\<close> (for the fallback response of
  the gateway this is \<open>Error\<close>), and else the area that \<open>_process_area_input\<close> has
  resolved the requested one to.
\<close>

theorem get_recommendations_result:
  "\<exists>response self' effects.
     get_recommendations env fs self a time_pref food_pref budget = (Inr response, self', effects) \<and>
     1 \<le> length (recommendations response) \<and>
     (\<forall>e. fst (get_recommendations_body env fs self a time_pref food_pref budget) = Inl e \<longrightarrow>
          response = create_error_response (str_of e) a \<and>
          RecommendationResponse.area response = JStr a) \<and>
     (\<forall>ctx self1 p prompt builder reply client effects'.
          get_context fs self = (Inr ctx, self1) \<and>
          process_area_input a ctx = Inr p \<and>
          build_prompt (prompt_builder self1) ctx
            \<lparr>UserQuery.area = p, time_preference = time_pref,
             food_preferences = food_pref, budget_category = budget\<rparr> = (Inr prompt, builder) \<and>
          query env (kiro_client self1) prompt = (Inr (reply, client), effects') \<longrightarrow>
          RecommendationResponse.area response =
            (if recommendations reply = [] \<or> \<not> truthy (RecommendationResponse.area reply) \<or>
                RecommendationResponse.area reply = JStr ''Unknown Area''
             then JStr p else RecommendationResponse.area reply))"
proof (cases "get_context fs self")
  case (Pair c self1)
  note gc = Pair
  show ?thesis
  proof (cases c)
    case (Inl err)
    with gc show ?thesis
      by (simp add: get_recommendations_def get_recommendations_body_def except_Exception_def
          create_error_response_def)
  next
    case (Inr ctx)
    note ctx = Inr
    show ?thesis
    proof (cases "process_area_input a ctx")
      case (Inl err)
      with gc ctx show ?thesis
        by (simp add: get_recommendations_def get_recommendations_body_def except_Exception_def
            create_error_response_def)
    next
      case (Inr p)
      note p = Inr
      let ?uq = "\<lparr>UserQuery.area = p, time_preference = time_pref,
             food_preferences = food_pref, budget_category = budget\<rparr>"
      have b: "snd (build_prompt (prompt_builder self1) ctx ?uq) = prompt_builder self1"
        by (rule build_prompt_builder)
      show ?thesis
      proof (cases "fst (build_prompt (prompt_builder self1) ctx ?uq)")
        case (Inl err)
        with b have "build_prompt (prompt_builder self1) ctx ?uq = (Inl err, prompt_builder self1)"
          by (metis prod.collapse)
        with gc ctx p show ?thesis
          by (simp add: get_recommendations_def get_recommendations_body_def except_Exception_def
              create_error_response_def Let_def)
      next
        case (Inr prompt)
        with b have bp: "build_prompt (prompt_builder self1) ctx ?uq = (Inr prompt, prompt_builder self1)"
          by (metis prod.collapse)
        from query_returns [of env "kiro_client self1" prompt]
        obtain reply client effects where
          q: "query env (kiro_client self1) prompt = (Inr (reply, client), effects)"
          by blast
        from gc ctx p bp q show ?thesis
          using post_process_nonempty [of reply ?uq ctx] post_process_area [of reply ?uq ctx]
          by (simp add: get_recommendations_def get_recommendations_body_def except_Exception_def
              Let_def Suc_le_eq)
      qed
    qed
  qed
qed

theorem get_recommendations_result_witness:
  "fst (get_recommendations plain_env no_file (RecommendationEngine plain_env None)
          ''Saket'' ''Evening'' [] ''Mid-range'') =
     Inr (create_error_response
            (''Error loading product context: Product context file not found: '' @
             default_context_file_path) ''Saket'') \<and>
   map_sum id RecommendationResponse.area
     (fst (get_recommendations (answering 500 ''down'') (file_with small_doc)
             (RecommendationEngine (answering 500 ''down'') None)
             ''Connaught Place'' ''Evening'' ''momos'' ''Mid-range'')) = Inr (JStr ''Error'')"
proof -
  have b: "fst (get_recommendations_body plain_env no_file (RecommendationEngine plain_env None)
                  ''Saket'' ''Evening'' [] ''Mid-range'') =
           Inl (PyErr Exception
                  (''Error loading product context: Product context file not found: '' @
                   default_context_file_path))"
    by (simp add: get_recommendations_body_def get_context_def RecommendationEngine_def
        or_else_def ContextLoader_def load_product_context_def load_body_def
        except_Exception_def no_file_def)
  from get_recommendations_result
         [of plain_env no_file "RecommendationEngine plain_env None"
             "''Saket''" "''Evening''" "[]" "''Mid-range''"]
  obtain response self' effects where
    r: "get_recommendations plain_env no_file (RecommendationEngine plain_env None)
          ''Saket'' ''Evening'' [] ''Mid-range'' = (Inr response, self', effects)"
    and e: "\<forall>e. fst (get_recommendations_body plain_env no_file
                        (RecommendationEngine plain_env None)
                        ''Saket'' ''Evening'' [] ''Mid-range'') = Inl e \<longrightarrow>
                response = create_error_response (str_of e) ''Saket'' \<and>
                RecommendationResponse.area response = JStr ''Saket''"
    by blast
  from e b have "response =
      create_error_response
        (''Error loading product context: Product context file not found: '' @
         default_context_file_path) ''Saket''"
    by simp
  with r have w1: "fst (get_recommendations plain_env no_file (RecommendationEngine plain_env None)
          ''Saket'' ''Evening'' [] ''Mid-range'') =
     Inr (create_error_response
            (''Error loading product context: Product context file not found: '' @
             default_context_file_path) ''Saket'')"
    by simp
  let ?E = "answering 500 ''down''"
  let ?F = "file_with small_doc"
  let ?S = "RecommendationEngine ?E None"
  let ?S1 = "snd (get_context ?F ?S)"
  let ?uq = "\<lparr>UserQuery.area = ''Connaught Place'', time_preference = ''Evening'',
              food_preferences = ''momos'', budget_category = ''Mid-range''\<rparr>"
  have g: "get_context ?F ?S = (Inr small_context, ?S1)"
    using context_of_small_doc by (metis prod.collapse)
  have k: "kiro_client ?S1 = KiroClient ?E None None"
    by (simp add: get_context_keeps RecommendationEngine_def)
  have pa: "process_area_input ''Connaught Place'' small_context = Inr ''Connaught Place''"
    by code_simp
  from build_prompt_Inr [of ?uq "prompt_builder ?S1" small_context]
  obtain prompt where bp: "build_prompt (prompt_builder ?S1) small_context ?uq =
      (Inr prompt, prompt_builder ?S1)"
    by auto
  have q: "query ?E (kiro_client ?S1) prompt =
     (Inr (create_fallback_response
             ''Failed to get response from Kiro after 3 attempts. Last error: API error: 500 - down'',
           KiroClient ?E None None), [Post 0])"
    unfolding k by (rule query_500)
  from get_recommendations_result
         [of ?E ?F ?S "''Connaught Place''" "''Evening''" "''momos''" "''Mid-range''"]
  obtain response2 self2 effects2 where
    r2: "get_recommendations ?E ?F ?S ''Connaught Place'' ''Evening'' ''momos'' ''Mid-range'' =
           (Inr response2, self2, effects2)"
    and a2: "\<forall>ctx self1 p prompt builder reply client effects'.
          get_context ?F ?S = (Inr ctx, self1) \<and>
          process_area_input ''Connaught Place'' ctx = Inr p \<and>
          build_prompt (prompt_builder self1) ctx
            \<lparr>UserQuery.area = p, time_preference = ''Evening'',
             food_preferences = ''momos'', budget_category = ''Mid-range''\<rparr> = (Inr prompt, builder) \<and>
          query ?E (kiro_client self1) prompt = (Inr (reply, client), effects') \<longrightarrow>
          RecommendationResponse.area response2 =
            (if recommendations reply = [] \<or> \<not> truthy (RecommendationResponse.area reply) \<or>
                RecommendationResponse.area reply = JStr ''Unknown Area''
             then JStr p else RecommendationResponse.area reply)"
    by blast
  from a2 g pa bp q
  have "RecommendationResponse.area response2 =
      (if recommendations (create_fallback_response
             ''Failed to get response from Kiro after 3 attempts. Last error: API error: 500 - down'') = [] \<or>
          \<not> truthy (RecommendationResponse.area (create_fallback_response
             ''Failed to get response from Kiro after 3 attempts. Last error: API error: 500 - down'')) \<or>
          RecommendationResponse.area (create_fallback_response
             ''Failed to get response from Kiro after 3 attempts. Last error: API error: 500 - down'') =
            JStr ''Unknown Area''
       then JStr ''Connaught Place''
       else RecommendationResponse.area (create_fallback_response
             ''Failed to get response from Kiro after 3 attempts. Last error: API error: 500 - down''))"
    by blast
  then have "RecommendationResponse.area response2 = JStr ''Error''"
    by (simp add: create_fallback_response_def)
  with r2 have w2: "map_sum id RecommendationResponse.area
     (fst (get_recommendations ?E ?F ?S ''Connaught Place'' ''Evening'' ''momos'' ''Mid-range'')) =
       Inr (JStr ''Error'')"
    by simp
  from w1 w2 show ?thesis by blast
qed

text \<open>
  The claim as it stands fails in its second half: with a credential configured and the
  service answering 500, the request for a known area comes back with the area
  \<open>Error\<close>.
\<close>

theorem get_recommendations_area_counterexample:
  "''Connaught Place'' \<noteq> [] \<and>
   map_sum id RecommendationResponse.area
     (fst (get_recommendations (answering 500 ''down'') (file_with small_doc)
             (RecommendationEngine (answering 500 ''down'') None)
             ''Connaught Place'' ''Evening'' ''momos'' ''Mid-range'')) = Inr (JStr ''Error'') \<and>
   JStr ''Error'' \<noteq> JStr ''Connaught Place''"
  by code_simp

section \<open>The hygiene rating of a parsed reply\<close>




section \<open>The retry policy of the request loop\<close>





section \<open>The composed prompt\<close>


section \<open>Loading a valid document\<close>




section \<open>The errors of loading\<close>




section \<open>Resolving the area\<close>




section \<open>A failed query leaves the cache alone\<close>

text \<open>
  C9.  When the \<open>try\<close> block of \<open>query\<close> fails, \<open>query\<close> returns with the
  client, and so its cache, exactly as it was before the call, and the cache holds nothing
  under the key of the prompt, so that a later query with the same prompt asks the service
  again instead of serving the fallback response.  In general the only change \<open>query\<close>
  ever makes to the cache is to store, under the key of the prompt, a response that
  \<open>_parse_response\<close> has returned for the reply to that prompt.
\<close>

theorem failed_query_leaves_cache:
  "(fst (query_body env self prompt) = Inl e \<longrightarrow>
      (\<exists>response client.
         fst (query env self prompt) = Inr (response, client) \<and>
         client = self \<and>
         response_cache client (get_cache_key env prompt) = None)) \<and>
   (fst (query env self prompt) = Inr (response, client) \<longrightarrow>
      response_cache client = response_cache self \<or>
      (\<exists>raw. fst (send_kiro_request env self prompt) = Inr raw \<and>
             parse_response env raw = Inr response \<and>
             response_cache client =
               (response_cache self)(get_cache_key env prompt \<mapsto> response)))"
proof (cases "response_cache self (get_cache_key env prompt)")
  case (Some cached)
  then show ?thesis
    by (auto simp: query_def query_body_def except_Exception_def Let_def)
next
  case None
  show ?thesis
  proof (cases "send_kiro_request env self prompt")
    case (Pair r effects)
    show ?thesis
    proof (cases r)
      case (Inl err)
      with None Pair show ?thesis
        by (auto simp: query_def query_body_def except_Exception_def Let_def bind_def)
    next
      case (Inr raw)
      with None Pair show ?thesis
        by (cases "parse_response env raw")
           (auto simp: query_def query_body_def except_Exception_def Let_def bind_def)
    qed
  qed
qed

theorem failed_query_leaves_cache_witness:
  "fst (query_body (with_credential plain_env)
          (KiroClient (with_credential plain_env) None None) ''Area: Saket'') =
     Inl (PyErr Exception
            ''Failed to get response from Kiro after 3 attempts. Last error: Connection error'') \<and>
   map_sum id (\<lambda>rc. response_cache (snd rc) (get_cache_key (with_credential plain_env) ''Area: Saket''))
     (fst (query (with_credential plain_env)
             (KiroClient (with_credential plain_env) None None) ''Area: Saket'')) =
     Inr None"
proof -
  have h: "fst (query_body (with_credential plain_env)
          (KiroClient (with_credential plain_env) None None) ''Area: Saket'') =
     Inl (PyErr Exception
            ''Failed to get response from Kiro after 3 attempts. Last error: Connection error'')"
    by (simp add: query_body_def get_cache_key_def with_credential_def plain_env_def
        KiroClient_def or_else_def send_kiro_request_def send_loop_unfold attempt_step_def
        bind_def failed_after_def str_nat_3 Let_def)
  from failed_query_leaves_cache
         [of "with_credential plain_env" "KiroClient (with_credential plain_env) None None"
             "''Area: Saket''"
             "PyErr Exception
                ''Failed to get response from Kiro after 3 attempts. Last error: Connection error''",
          THEN conjunct1]
       h
  obtain response client where
    "fst (query (with_credential plain_env)
            (KiroClient (with_credential plain_env) None None) ''Area: Saket'') =
       Inr (response, client)"
    "response_cache client (get_cache_key (with_credential plain_env) ''Area: Saket'') = None"
    by blast
  with h show ?thesis by simp
qed

section \<open>The areas list never fails\<close>

text \<open>
  C10.  \<open>RecommendationEngine.get_areas_list\<close> is total: for every file system and every
  state of the engine it returns a list and raises nothing; and whenever getting the
  context fails, whatever the error, the list is the fixed list of six default areas.
\<close>

theorem get_areas_list_total:
  "(\<exists>xs. fst (get_areas_list fs self) = Inr xs) \<and>
   (fst (get_context fs self) = Inl e \<longrightarrow>
      fst (get_areas_list fs self) =
        Inr [''Connaught Place'', ''Lajpat Nagar'', ''Chandni Chowk'',
             ''Karol Bagh'', ''Greater Kailash'', ''Alaknanda''])"
  by (cases "get_context fs self"; cases "fst (get_context fs self)")
     (auto simp: get_areas_list_def except_Exception_def bind_def default_areas_def)

theorem get_areas_list_total_witness:
  "fst (get_context no_file (RecommendationEngine plain_env None)) =
     Inl (PyErr Exception
            (''Error loading product context: Product context file not found: '' @
             default_context_file_path)) \<and>
   fst (get_areas_list no_file (RecommendationEngine plain_env None)) =
     Inr [''Connaught Place'', ''Lajpat Nagar'', ''Chandni Chowk'',
          ''Karol Bagh'', ''Greater Kailash'', ''Alaknanda'']"
proof -
  have h: "fst (get_context no_file (RecommendationEngine plain_env None)) =
     Inl (PyErr Exception
            (''Error loading product context: Product context file not found: '' @
             default_context_file_path))"
    by (simp add: get_context_def RecommendationEngine_def or_else_def ContextLoader_def
        load_product_context_def load_body_def except_Exception_def no_file_def)
  from get_areas_list_total [of no_file "RecommendationEngine plain_env None"] h
  show ?thesis by simp
qed

end
